theory Spec2Isabelle
  imports Complex_Main "HOL-Library.AList"
begin

section \<open>The compose shader of ComposeReflectionsPass\<close>

text \<open>
  The fragment shader of \<^verbatim>\<open>ComposeReflectionsPass.js\<close> runs once per pixel. GLSL floats are
  idealised as real numbers, a texture as the function that \<^verbatim>\<open>texture2D\<close> computes from a
  coordinate to a texel, and the preprocessor switch \<^verbatim>\<open>TEMPORAL_RESOLVE\<close> as a boolean.
\<close>

type_synonym vec2 = "real \<times> real"
type_synonym vec3 = "real \<times> real \<times> real"

text \<open>A \<^verbatim>\<open>vec4\<close> texel; its four components are read as \<^verbatim>\<open>.rgba\<close> or \<^verbatim>\<open>.xyzw\<close>.\<close>

record vec4 =
  red :: real
  green :: real
  blue :: real
  alpha :: real

type_synonym sampler2D = "vec2 \<Rightarrow> vec4"

definition xy :: "vec4 \<Rightarrow> vec2" where
  "xy t = (red t, green t)"

definition rgb :: "vec4 \<Rightarrow> vec3" where
  "rgb t = (red t, green t, blue t)"

fun mk_vec4 :: "vec3 \<Rightarrow> real \<Rightarrow> vec4" where
  "mk_vec4 (x, y, z) w = \<lparr>red = x, green = y, blue = z, alpha = w\<rparr>"

fun sub2 :: "vec2 \<Rightarrow> vec2 \<Rightarrow> vec2" where
  "sub2 (x1, y1) (x2, y2) = (x1 - x2, y1 - y2)"

fun add3 :: "vec3 \<Rightarrow> vec3 \<Rightarrow> vec3" where
  "add3 (x1, y1, z1) (x2, y2, z2) = (x1 + x2, y1 + y2, z1 + z2)"

fun div3 :: "vec3 \<Rightarrow> real \<Rightarrow> vec3" where
  "div3 (x, y, z) d = (x / d, y / d, z / d)"

text \<open>GLSL \<^verbatim>\<open>mix(x, y, a)\<close> is \<^verbatim>\<open>x * (1 - a) + y * a\<close>, componentwise on vectors.\<close>

definition mix :: "real \<Rightarrow> real \<Rightarrow> real \<Rightarrow> real" where
  "mix x y w = x * (1 - w) + y * w"

fun mix3 :: "vec3 \<Rightarrow> vec3 \<Rightarrow> real \<Rightarrow> vec3" where
  "mix3 (x1, y1, z1) (x2, y2, z2) w = (mix x1 x2 w, mix y1 y2 w, mix z1 z2 w)"

text \<open>GLSL \<^verbatim>\<open>length\<close> of a \<^verbatim>\<open>vec3\<close>: the Euclidean norm.\<close>

fun length3 :: "vec3 \<Rightarrow> real" where
  "length3 (x, y, z) = sqrt (x * x + y * y + z * z)"

text \<open>\<^verbatim>\<open>#define EULER 2.718281828459045\<close>\<close>

definition EULER :: real where
  "EULER = 2718281828459045 / 1000000000000000"

text \<open>
  \<^verbatim>\<open>float mixVal = 1. / samples; mixVal /= EULER;\<close>
  The uniform \<^verbatim>\<open>samples\<close> is a float. At \<^verbatim>\<open>samples = 0\<close> the GLSL division is undefined,
  here it is HOL's \<open>1 / 0 = 0\<close>; every statement about \<open>mixVal\<close> below takes
  \<open>samples \<ge> 1\<close>.
\<close>

definition mixVal :: "real \<Rightarrow> real" where
  "mixVal samples = (1 / samples) / EULER"

text \<open>
  The body of \<^verbatim>\<open>main\<close>. The names are the shader's; \<open>lastRgb\<close> is
  \<^verbatim>\<open>lastFrameReflectionsTexel.rgb\<close> after the two in-place updates
  \<^verbatim>\<open>+= lastFrameReflectionsProjectedTexel.rgb\<close> and \<^verbatim>\<open>/= 2.\<close>, while
  \<^verbatim>\<open>lastFrameReflectionsTexel.a\<close> (here \<open>alpha\<close>) keeps the value read at \<^verbatim>\<open>vUv\<close>.
\<close>

definition main :: "bool \<Rightarrow> sampler2D \<Rightarrow> sampler2D \<Rightarrow> sampler2D \<Rightarrow> real \<Rightarrow> vec2 \<Rightarrow> vec4" where
  "main TEMPORAL_RESOLVE inputBuffer lastFrameReflectionsBuffer velocityBuffer samples vUv =
    (let inputTexel = inputBuffer vUv;
         lastFrameReflectionsTexel = lastFrameReflectionsBuffer vUv
     in if TEMPORAL_RESOLVE then
          (let velUv = xy (velocityBuffer vUv);
               lastFrameReflectionsProjectedTexel = lastFrameReflectionsBuffer (sub2 vUv velUv);
               lastRgb = div3 (add3 (rgb lastFrameReflectionsTexel)
                                    (rgb lastFrameReflectionsProjectedTexel)) 2;
               mv = mixVal samples;
               newColor = mix3 lastRgb (rgb inputTexel) mv;
               newColor' = (if length3 lastRgb < 1 / 1000
                            then mix3 lastRgb (add3 lastRgb (rgb inputTexel)) (1 / 4)
                            else newColor);
               blurMix = mix (alpha lastFrameReflectionsTexel) (alpha inputTexel + 1 / 2) mv
           in mk_vec4 newColor' blurMix)
        else mk_vec4 (rgb inputTexel) (alpha inputTexel))"

section \<open>The reactive configuration of SSREffect\<close>

subsection \<open>JavaScript values\<close>

text \<open>
  The values an option holds: \<^verbatim>\<open>undefined\<close>, booleans and numbers. Numbers are idealised as
  reals, with \<^verbatim>\<open>NaN\<close> as a value of its own. Strings and objects are left out: no option of
  the configuration surface holds one.
\<close>

datatype jsval = JUndefined | JBool bool | JNum real | JNaN

text \<open>\<^verbatim>\<open>a === b\<close>: equal values of the same type, and \<^verbatim>\<open>NaN\<close> is not equal to itself.\<close>

fun strict_eq :: "jsval \<Rightarrow> jsval \<Rightarrow> bool" where
  "strict_eq JUndefined JUndefined = True"
| "strict_eq (JBool p) (JBool q) = (p = q)"
| "strict_eq (JNum x) (JNum y) = (x = y)"
| "strict_eq _ _ = False"

text \<open>\<^verbatim>\<open>value * dpr\<close>: the left operand goes through \<^verbatim>\<open>ToNumber\<close>.\<close>

fun to_number :: "jsval \<Rightarrow> jsval" where
  "to_number JUndefined = JNaN"
| "to_number (JBool p) = JNum (if p then 1 else 0)"
| "to_number (JNum x) = JNum x"
| "to_number JNaN = JNaN"

definition js_times :: "jsval \<Rightarrow> real \<Rightarrow> jsval" where
  "js_times v d = (case to_number v of JNum x \<Rightarrow> JNum (x * d) | _ \<Rightarrow> JNaN)"

text \<open>\<^verbatim>\<open>if (value)\<close>\<close>

fun truthy :: "jsval \<Rightarrow> bool" where
  "truthy JUndefined = False"
| "truthy (JBool p) = p"
| "truthy (JNum x) = (x \<noteq> 0)"
| "truthy JNaN = False"

text \<open>
  \<^verbatim>\<open>parseInt(value)\<close> parses the string form of its argument. A number of magnitude from
  \<open>10\<^sup>-\<^sup>6\<close> up to, but not including, \<open>10\<^sup>2\<^sup>1\<close> is written in decimal notation, so the
  result is its integer part (truncation towards zero). A smaller non-zero or a larger number is
  written in exponent notation (\<^verbatim>\<open>5e-7\<close>, \<^verbatim>\<open>1e+21\<close>), and \<^verbatim>\<open>parseInt\<close> reads only the digit in
  front of the point or exponent, the number's leading decimal digit: \<^verbatim>\<open>parseInt(5e-7)\<close> is 5.
  \<^verbatim>\<open>undefined\<close>, a boolean and \<^verbatim>\<open>NaN\<close> have no digits and give \<^verbatim>\<open>NaN\<close>.
\<close>

function leading_digit_big :: "real \<Rightarrow> int" where
  "leading_digit_big x = (if 10 \<le> x then leading_digit_big (x / 10) else \<lfloor>x\<rfloor>)"
  by pat_completeness auto
termination
proof (relation "measure (\<lambda>x. nat \<lfloor>x\<rfloor>)")
  show "wf (measure (\<lambda>x::real. nat \<lfloor>x\<rfloor>))" by simp
next
  fix x :: real
  assume x: "10 \<le> x"
  have "x / 10 \<le> x - 9" using x by simp
  then have "\<lfloor>x / 10\<rfloor> \<le> \<lfloor>x - 9\<rfloor>" by (rule floor_mono)
  also have "\<dots> = \<lfloor>x\<rfloor> - 9" by simp
  finally have "\<lfloor>x / 10\<rfloor> < \<lfloor>x\<rfloor>" by simp
  moreover have "0 < \<lfloor>x\<rfloor>" using x by simp
  ultimately show "(x / 10, x) \<in> measure (\<lambda>x. nat \<lfloor>x\<rfloor>)" by simp
qed

function leading_digit_small :: "real \<Rightarrow> int" where
  "leading_digit_small x =
    (if 0 < x \<and> x < 1 then leading_digit_small (x * 10) else \<lfloor>x\<rfloor>)"
  by pat_completeness auto
termination
proof (relation "measure (\<lambda>x. nat \<lceil>1 / x\<rceil>)")
  show "wf (measure (\<lambda>x::real. nat \<lceil>1 / x\<rceil>))" by simp
next
  fix x :: real
  assume "0 < x \<and> x < 1"
  then have big: "1 < 1 / x" by simp
  have tenth: "\<lceil>y / 10\<rceil> < \<lceil>y\<rceil>" if "1 < y" for y :: real
  proof (cases "y \<le> 10")
    case True
    then have "y / 10 \<le> 1" by simp
    then have "\<lceil>y / 10\<rceil> \<le> 1" by (rule ceiling_le_one [THEN iffD2])
    moreover have "2 \<le> \<lceil>y\<rceil>" using that by linarith
    ultimately show ?thesis by linarith
  next
    case False
    then have "y / 10 \<le> y - 9" by simp
    then have "\<lceil>y / 10\<rceil> \<le> \<lceil>y - 9\<rceil>" by (rule ceiling_mono)
    also have "\<dots> = \<lceil>y\<rceil> - 9" by (rule ceiling_diff_numeral)
    finally show ?thesis by linarith
  qed
  have lt: "\<lceil>1 / x / 10\<rceil> < \<lceil>1 / x\<rceil>"
    using big by (rule tenth)
  have pos: "0 < \<lceil>1 / x\<rceil>"
    using big by linarith
  have e: "1 / (x * 10) = 1 / x / 10" by simp
  have "nat \<lceil>1 / (x * 10)\<rceil> < nat \<lceil>1 / x\<rceil>"
    unfolding e using lt pos by linarith
  then show "(x * 10, x) \<in> measure (\<lambda>x. nat \<lceil>1 / x\<rceil>)"
    by (simp only: in_measure)
qed

definition number_parseInt :: "real \<Rightarrow> int" where
  "number_parseInt x =
    (let m = \<bar>x\<bar>;
         d = (if m = 0 then 0
              else if m < 1 / 10 ^ 6 then leading_digit_small m
              else if m < 10 ^ 21 then \<lfloor>m\<rfloor>
              else leading_digit_big m)
     in if x < 0 then - d else d)"

fun parseInt :: "jsval \<Rightarrow> jsval" where
  "parseInt (JNum x) = JNum (of_int (number_parseInt x))"
| "parseInt _ = JNaN"

text \<open>
  \<^verbatim>\<open>Math.round(value)\<close> rounds \<^verbatim>\<open>ToNumber(value)\<close> to the nearest integer, halves upwards.
\<close>

definition Math_round :: "jsval \<Rightarrow> jsval" where
  "Math_round v = (case to_number v of JNum x \<Rightarrow> JNum (of_int \<lfloor>x + 1 / 2\<rfloor>) | _ \<Rightarrow> JNaN)"

text \<open>
  A plain object is an association list in insertion order: \<open>obj_get\<close> is \<^verbatim>\<open>o[k]\<close>
  (\<^verbatim>\<open>undefined\<close> for a missing key), \<^verbatim>\<open>o[k] = v\<close> is \<open>AList.update k v\<close>, \<^verbatim>\<open>delete o[k]\<close> is
  \<open>AList.delete k\<close> and \<^verbatim>\<open>Object.keys(o)\<close> is \<open>map fst\<close>.
\<close>

definition obj_get :: "(string \<times> jsval) list \<Rightarrow> string \<Rightarrow> jsval" where
  "obj_get obj k = (case map_of obj k of Some v \<Rightarrow> v | None \<Rightarrow> JUndefined)"

datatype js_error = TypeError

subsection \<open>The two sub-passes\<close>

text \<open>
  \<^verbatim>\<open>ReflectionsPass\<close> and \<^verbatim>\<open>TemporalResolvePass\<close> are collaborators of the effect. Of each the
  model keeps what \<^verbatim>\<open>SSREffect\<close> reads or writes: the uniforms and defines of its fullscreen
  material (a uniform by the \<^verbatim>\<open>.value\<close> it holds), the material's \<^verbatim>\<open>needsUpdate\<close> flag, and the
  arguments of every \<^verbatim>\<open>setSize(width, height)\<close> call the pass has received, oldest first.
  A define holds a number, or the empty string that stands for a bare \<^verbatim>\<open>#define\<close>.
\<close>

datatype define_value = DefineValue jsval | DefineEmpty

record material =
  mat_uniforms :: "(string \<times> jsval) list"
  mat_defines :: "(string \<times> define_value) list"
  mat_needsUpdate :: bool

record pass =
  fullscreenMaterial :: material
  sizeCalls :: "(jsval \<times> jsval) list"

record temporal_pass = pass +
  pass_velocityResolutionScale :: jsval

definition pass_setSize :: "jsval \<Rightarrow> jsval \<Rightarrow> 'a pass_scheme \<Rightarrow> 'a pass_scheme" where
  "pass_setSize w h p = p\<lparr>sizeCalls := sizeCalls p @ [(w, h)]\<rparr>"

text \<open>
  \<^verbatim>\<open>uniforms.k.value = v\<close> on a material, and \<^verbatim>\<open>uniforms.get(k).value = v\<close> on a \<^verbatim>\<open>Map\<close>: a
  \<^verbatim>\<open>TypeError\<close> when there is no uniform \<open>k\<close>.
\<close>

definition write_uniform ::
  "string \<Rightarrow> jsval \<Rightarrow> (string \<times> jsval) list \<Rightarrow> js_error + (string \<times> jsval) list" where
  "write_uniform k v us =
    (case map_of us k of None \<Rightarrow> Inl TypeError | Some _ \<Rightarrow> Inr (AList.update k v us))"

definition write_pass_uniform ::
  "string \<Rightarrow> jsval \<Rightarrow> 'a pass_scheme \<Rightarrow> js_error + 'a pass_scheme" where
  "write_pass_uniform k v p =
    (case write_uniform k v (mat_uniforms (fullscreenMaterial p)) of
       Inl e \<Rightarrow> Inl e
     | Inr us \<Rightarrow> Inr (p\<lparr>fullscreenMaterial := (fullscreenMaterial p)\<lparr>mat_uniforms := us\<rparr>\<rparr>))"

text \<open>\<^verbatim>\<open>defines.k = d; needsUpdate = nu\<close> and \<^verbatim>\<open>delete defines.k; needsUpdate = nu\<close>\<close>

definition set_define :: "string \<Rightarrow> define_value \<Rightarrow> bool \<Rightarrow> 'a pass_scheme \<Rightarrow> 'a pass_scheme" where
  "set_define k d nu p =
    p\<lparr>fullscreenMaterial := (fullscreenMaterial p)
        \<lparr>mat_defines := AList.update k d (mat_defines (fullscreenMaterial p)),
         mat_needsUpdate := nu\<rparr>\<rparr>"

definition delete_define :: "string \<Rightarrow> bool \<Rightarrow> 'a pass_scheme \<Rightarrow> 'a pass_scheme" where
  "delete_define k nu p =
    p\<lparr>fullscreenMaterial := (fullscreenMaterial p)
        \<lparr>mat_defines := AList.delete k (mat_defines (fullscreenMaterial p)),
         mat_needsUpdate := nu\<rparr>\<rparr>"

subsection \<open>The effect\<close>

text \<open>\<^verbatim>\<open>lastSize\<close>, the last recorded size.\<close>

record size_snapshot =
  width :: jsval
  height :: jsval
  resolutionScale :: jsval
  velocityResolutionScale :: jsval

text \<open>
  The state of one \<^verbatim>\<open>SSREffect\<close>. Besides the object's own properties it holds the variables
  that the accessors of \<^verbatim>\<open>makeOptionsReactive\<close> close over: \<open>options\<close>, \<open>needsUpdate\<close>,
  \<open>dpr\<close> and \<open>reflectionPassFullscreenMaterialUniformsKeys\<close>. \<open>reactive\<close> lists the
  keys for which \<^verbatim>\<open>Object.defineProperty\<close> has run. \<open>samples\<close> is the property that the
  setter assigns with \<^verbatim>\<open>this.samples = 0\<close>, the sample count of the statements below (the
  count that \<^verbatim>\<open>update\<close> copies into the \<open>samples\<close> uniform is \<^verbatim>\<open>temporalResolvePass.samples\<close>,
  a property of that pass). \<open>uniforms\<close> is the effect's own \<^verbatim>\<open>Map\<close> of uniforms.
\<close>

record ssr_effect =
  options :: "(string \<times> jsval) list"
  needsUpdate :: bool
  dpr :: real
  reflectionPassFullscreenMaterialUniformsKeys :: "string list"
  reactive :: "string list"
  samples :: jsval
  lastSize :: size_snapshot
  uniforms :: "(string \<times> jsval) list"
  reflectionsPass :: pass
  temporalResolvePass :: temporal_pass

text \<open>\<^verbatim>\<open>// all the properties for which we don't have to resample\<close>\<close>

definition noResetSamplesProperties :: "string list" where
  "noResetSamplesProperties = [''blurMix'', ''blurSharpness'', ''blurKernelSize'']"

text \<open>
  \<^verbatim>\<open>this.k\<close> for an option name \<open>k\<close>: the getter \<^verbatim>\<open>options[k]\<close> once the property is
  defined, \<^verbatim>\<open>undefined\<close> before.
\<close>

definition this_option :: "ssr_effect \<Rightarrow> string \<Rightarrow> jsval" where
  "this_option s k = (if k \<in> set (reactive s) then obj_get (options s) k else JUndefined)"

text \<open>\<^verbatim>\<open>setSize(width, height, force = false)\<close>\<close>

definition setSize :: "jsval \<Rightarrow> jsval \<Rightarrow> bool \<Rightarrow> ssr_effect \<Rightarrow> ssr_effect" where
  "setSize w h force s =
    (if \<not> force \<and>
        strict_eq w (width (lastSize s)) \<and>
        strict_eq h (height (lastSize s)) \<and>
        strict_eq (this_option s ''resolutionScale'') (resolutionScale (lastSize s)) \<and>
        strict_eq (this_option s ''velocityResolutionScale'') (velocityResolutionScale (lastSize s))
     then s
     else s\<lparr>temporalResolvePass := pass_setSize w h (temporalResolvePass s),
            reflectionsPass := pass_setSize w h (reflectionsPass s),
            lastSize := \<lparr>width = w, height = h,
                         resolutionScale = this_option s ''resolutionScale'',
                         velocityResolutionScale = this_option s ''velocityResolutionScale''\<rparr>\<rparr>)"

text \<open>The \<^verbatim>\<open>switch (key)\<close> of the setter, in the order of its cases.\<close>

definition setter_switch :: "string \<Rightarrow> jsval \<Rightarrow> ssr_effect \<Rightarrow> js_error + ssr_effect" where
  "setter_switch key v s =
    (if key = ''resolutionScale'' then
       Inr (setSize (obj_get (options s) ''width'') (obj_get (options s) ''height'') False s)
     else if key = ''velocityResolutionScale'' then
       Inr (setSize (obj_get (options s) ''width'') (obj_get (options s) ''height'') True
              (s\<lparr>temporalResolvePass :=
                    (temporalResolvePass s)\<lparr>pass_velocityResolutionScale := v\<rparr>\<rparr>))
     else if key = ''width'' then
       (if v = JUndefined then Inr s
        else Inr (setSize (js_times v (dpr s)) (obj_get (options s) ''height'') False s))
     else if key = ''height'' then
       (if v = JUndefined then Inr s
        else Inr (setSize (obj_get (options s) ''width'') (js_times v (dpr s)) False s))
     else if key = ''blurMix'' then
       (case write_uniform ''blurMix'' v (uniforms s) of
          Inl e \<Rightarrow> Inl e
        | Inr us \<Rightarrow> Inr (s\<lparr>uniforms := us\<rparr>))
     else if key = ''blurSharpness'' then
       (case write_uniform ''blurSharpness'' v (uniforms s) of
          Inl e \<Rightarrow> Inl e
        | Inr us \<Rightarrow> Inr (s\<lparr>uniforms := us\<rparr>))
     else if key = ''blurKernelSize'' then
       (case write_uniform ''blurKernelSize'' v (uniforms s) of
          Inl e \<Rightarrow> Inl e
        | Inr us \<Rightarrow> Inr (s\<lparr>uniforms := us\<rparr>))
     else if key = ''MAX_STEPS'' then
       Inr (s\<lparr>reflectionsPass :=
                set_define ''MAX_STEPS'' (DefineValue (parseInt v)) (needsUpdate s)
                  (reflectionsPass s)\<rparr>)
     else if key = ''NUM_BINARY_SEARCH_STEPS'' then
       Inr (s\<lparr>reflectionsPass :=
                set_define ''NUM_BINARY_SEARCH_STEPS'' (DefineValue (parseInt v)) (needsUpdate s)
                  (reflectionsPass s)\<rparr>)
     else if key = ''ALLOW_MISSED_RAYS'' then
       Inr (s\<lparr>reflectionsPass :=
                (if truthy v
                 then set_define ''ALLOW_MISSED_RAYS'' DefineEmpty (needsUpdate s) (reflectionsPass s)
                 else delete_define ''ALLOW_MISSED_RAYS'' (needsUpdate s) (reflectionsPass s))\<rparr>)
     else if key = ''CLAMP_RADIUS'' then
       Inr (s\<lparr>temporalResolvePass :=
                set_define ''CLAMP_RADIUS'' (DefineValue (Math_round v)) (needsUpdate s)
                  (temporalResolvePass s)\<rparr>)
     else if key = ''temporalResolveMix'' then
       (case write_pass_uniform ''temporalResolveMix'' v (temporalResolvePass s) of
          Inl e \<Rightarrow> Inl e
        | Inr p \<Rightarrow> Inr (s\<lparr>temporalResolvePass := p\<rparr>))
     else if key = ''temporalResolveCorrection'' then
       (case write_pass_uniform ''temporalResolveCorrection'' v (temporalResolvePass s) of
          Inl e \<Rightarrow> Inl e
        | Inr p \<Rightarrow> Inr (s\<lparr>temporalResolvePass := p\<rparr>))
     else if key = ''colorExponent'' then
       (case write_pass_uniform ''colorExponent'' v (temporalResolvePass s) of
          Inl e \<Rightarrow> Inl e
        | Inr p \<Rightarrow> Inr (s\<lparr>temporalResolvePass := p\<rparr>))
     else if key \<in> set (reflectionPassFullscreenMaterialUniformsKeys s) then
       (case write_pass_uniform key v (reflectionsPass s) of
          Inl e \<Rightarrow> Inl e
        | Inr p \<Rightarrow> Inr (s\<lparr>reflectionsPass := p\<rparr>))
     else Inr s)"

text \<open>The labels of the switch's cases: the keys with a dedicated case.\<close>

definition switch_cases :: "string list" where
  "switch_cases =
    [''resolutionScale'', ''velocityResolutionScale'', ''width'', ''height'',
     ''blurMix'', ''blurSharpness'', ''blurKernelSize'',
     ''MAX_STEPS'', ''NUM_BINARY_SEARCH_STEPS'', ''ALLOW_MISSED_RAYS'', ''CLAMP_RADIUS'',
     ''temporalResolveMix'', ''temporalResolveCorrection'', ''colorExponent'']"

text \<open>
  The setter that \<^verbatim>\<open>makeOptionsReactive\<close> installs for \<open>key\<close>: the same-value return, the
  store into \<open>options\<close>, the reset for a key outside \<open>noResetSamplesProperties\<close>, then the
  switch.
\<close>

definition setter :: "string \<Rightarrow> jsval \<Rightarrow> ssr_effect \<Rightarrow> js_error + ssr_effect" where
  "setter key v s =
    (if strict_eq (obj_get (options s) key) v \<and> needsUpdate s then Inr s
     else
       (let s1 = s\<lparr>options := AList.update key v (options s)\<rparr>;
            s2 = (if key \<notin> set noResetSamplesProperties
                  then setSize (obj_get (options s1) ''width'') (obj_get (options s1) ''height'') True
                         (s1\<lparr>samples := JNum 0\<rparr>)
                  else s1)
        in setter_switch key v s2))"

text \<open>
  The loop of \<^verbatim>\<open>makeOptionsReactive\<close> over \<^verbatim>\<open>Object.keys(options)\<close>: define the property, then
  \<^verbatim>\<open>this[key] = options[key]\<close>, which runs the setter just installed.
\<close>

fun reactive_loop :: "string list \<Rightarrow> ssr_effect \<Rightarrow> js_error + ssr_effect" where
  "reactive_loop [] s = Inr s"
| "reactive_loop (key # keys) s =
    (case setter key (obj_get (options s) key) (s\<lparr>reactive := reactive s @ [key]\<rparr>) of
       Inl e \<Rightarrow> Inl e
     | Inr s' \<Rightarrow> reactive_loop keys s')"

text \<open>
  \<^verbatim>\<open>makeOptionsReactive(options)\<close>, with \<^verbatim>\<open>window.devicePixelRatio\<close> as the parameter \<open>d\<close>.
  The state it starts from is the effect as the constructor has built it.
\<close>

definition makeOptionsReactive ::
  "real \<Rightarrow> (string \<times> jsval) list \<Rightarrow> ssr_effect \<Rightarrow> js_error + ssr_effect" where
  "makeOptionsReactive d opts s =
    (let s0 = s\<lparr>options := opts, dpr := d, needsUpdate := False,
                 reflectionPassFullscreenMaterialUniformsKeys :=
                   map fst (mat_uniforms (fullscreenMaterial (reflectionsPass s)))\<rparr>
     in case reactive_loop (map fst opts) s0 of
          Inl e \<Rightarrow> Inl e
        | Inr s' \<Rightarrow> Inr (s'\<lparr>needsUpdate := True\<rparr>))"

subsection \<open>A concrete effect\<close>

text \<open>
  An effect for 800 by 600 pixels at device pixel ratio 1, as it stands when the constructor
  calls \<^verbatim>\<open>makeOptionsReactive\<close>: the options are those of the configuration surface, one
  uniform of the ray marcher (\<open>rayStep\<close>) and the two keys \<open>BOX_BLUR\<close> and \<open>DILATION\<close>
  that the constructor adds; the constructor's own \<^verbatim>\<open>setSize\<close> call has reached both passes.
\<close>

definition example_options :: "(string \<times> jsval) list" where
  "example_options =
    [(''width'', JNum 800), (''height'', JNum 600),
     (''resolutionScale'', JNum 1), (''velocityResolutionScale'', JNum 1),
     (''blurMix'', JNum (1 / 2)), (''blurSharpness'', JNum 10), (''blurKernelSize'', JNum 1),
     (''rayStep'', JNum (1 / 10)),
     (''MAX_STEPS'', JNum 20), (''NUM_BINARY_SEARCH_STEPS'', JNum 5),
     (''ALLOW_MISSED_RAYS'', JBool True), (''CLAMP_RADIUS'', JNum 1),
     (''temporalResolveMix'', JNum (9 / 10)), (''temporalResolveCorrection'', JNum 1),
     (''colorExponent'', JNum 1),
     (''BOX_BLUR'', JBool True), (''DILATION'', JBool True)]"

definition example_constructed :: ssr_effect where
  "example_constructed =
    \<lparr>options = example_options,
     needsUpdate = False,
     dpr = 1,
     reflectionPassFullscreenMaterialUniformsKeys = [],
     reactive = [],
     samples = JUndefined,
     lastSize = \<lparr>width = JNum 800, height = JNum 600,
                 resolutionScale = JUndefined, velocityResolutionScale = JUndefined\<rparr>,
     uniforms = [(''samples'', JNum 0), (''blurMix'', JNum 0), (''blurSharpness'', JNum 0),
                 (''blurKernelSize'', JNum 0)],
     reflectionsPass =
       \<lparr>fullscreenMaterial =
          \<lparr>mat_uniforms = [(''rayStep'', JNum 0)], mat_defines = [], mat_needsUpdate = False\<rparr>,
        sizeCalls = [(JNum 800, JNum 600)]\<rparr>,
     temporalResolvePass =
       \<lparr>fullscreenMaterial =
          \<lparr>mat_uniforms = [(''temporalResolveMix'', JNum 0), (''temporalResolveCorrection'', JNum 0),
                           (''colorExponent'', JNum 0)],
           mat_defines = [], mat_needsUpdate = False\<rparr>,
        sizeCalls = [(JNum 800, JNum 600)],
        pass_velocityResolutionScale = JUndefined\<rparr>\<rparr>"

text \<open>The same effect once \<^verbatim>\<open>makeOptionsReactive\<close> has returned.\<close>

definition example_effect :: ssr_effect where
  "example_effect =
    \<lparr>options = example_options,
     needsUpdate = True,
     dpr = 1,
     reflectionPassFullscreenMaterialUniformsKeys = [''rayStep''],
     reactive = map fst example_options,
     samples = JNum 0,
     lastSize = \<lparr>width = JNum 800, height = JNum 600,
                 resolutionScale = JNum 1, velocityResolutionScale = JNum 1\<rparr>,
     uniforms = [(''samples'', JNum 0), (''blurMix'', JNum (1 / 2)), (''blurSharpness'', JNum 10),
                 (''blurKernelSize'', JNum 1)],
     reflectionsPass =
       \<lparr>fullscreenMaterial =
          \<lparr>mat_uniforms = [(''rayStep'', JNum (1 / 10))],
           mat_defines = [(''MAX_STEPS'', DefineValue (JNum 20)),
                          (''NUM_BINARY_SEARCH_STEPS'', DefineValue (JNum 5)),
                          (''ALLOW_MISSED_RAYS'', DefineEmpty)],
           mat_needsUpdate = False\<rparr>,
        sizeCalls = [(JNum 800, JNum 600), (JNum 800, JNum 600),
                    (JNum 800, JNum 600), (JNum 800, JNum 600),
                    (JNum 800, JNum 600), (JNum 800, JNum 600),
                    (JNum 800, JNum 600), (JNum 800, JNum 600),
                    (JNum 800, JNum 600), (JNum 800, JNum 600),
                    (JNum 800, JNum 600), (JNum 800, JNum 600),
                    (JNum 800, JNum 600), (JNum 800, JNum 600),
                    (JNum 800, JNum 600), (JNum 800, JNum 600)]\<rparr>,
     temporalResolvePass =
       \<lparr>fullscreenMaterial =
          \<lparr>mat_uniforms = [(''temporalResolveMix'', JNum (9 / 10)),
                           (''temporalResolveCorrection'', JNum 1), (''colorExponent'', JNum 1)],
           mat_defines = [(''CLAMP_RADIUS'', DefineValue (JNum 1))],
           mat_needsUpdate = False\<rparr>,
        sizeCalls = [(JNum 800, JNum 600), (JNum 800, JNum 600),
                    (JNum 800, JNum 600), (JNum 800, JNum 600),
                    (JNum 800, JNum 600), (JNum 800, JNum 600),
                    (JNum 800, JNum 600), (JNum 800, JNum 600),
                    (JNum 800, JNum 600), (JNum 800, JNum 600),
                    (JNum 800, JNum 600), (JNum 800, JNum 600),
                    (JNum 800, JNum 600), (JNum 800, JNum 600),
                    (JNum 800, JNum 600), (JNum 800, JNum 600)],
        pass_velocityResolutionScale = JNum 1\<rparr>\<rparr>"

subsection \<open>Concrete buffers for the shader\<close>

text \<open>
  A history buffer that is white with full confidence at the pixel \<open>(1/2, 1/2)\<close> and empty
  elsewhere, an empty history buffer, a current frame of one colour, and a velocity buffer that
  moves every pixel by a quarter of the screen to the right.
\<close>

definition ex_lastFrame :: sampler2D where
  "ex_lastFrame uv =
    (if uv = (1 / 2, 1 / 2) then \<lparr>red = 1, green = 1, blue = 1, alpha = 1\<rparr>
     else \<lparr>red = 0, green = 0, blue = 0, alpha = 0\<rparr>)"

definition ex_emptyFrame :: sampler2D where
  "ex_emptyFrame uv = \<lparr>red = 0, green = 0, blue = 0, alpha = 0\<rparr>"

definition ex_inputBuffer :: sampler2D where
  "ex_inputBuffer uv = \<lparr>red = 1 / 5, green = 2 / 5, blue = 3 / 5, alpha = 1 / 2\<rparr>"

definition ex_velocityBuffer :: sampler2D where
  "ex_velocityBuffer uv = \<lparr>red = 1 / 4, green = 0, blue = 0, alpha = 0\<rparr>"

section \<open>Properties of the compose shader\<close>

subsection \<open>The blend weight\<close>

lemma EULER_pos: "0 < EULER"
  by (simp add: EULER_def)

lemma mixVal_eq: "mixVal x = 1 / (x * EULER)"
  by (simp add: mixVal_def)

lemma mixVal_antimono:
  assumes "0 < x" and "x < y"
  shows "mixVal y < mixVal x"
proof -
  have "0 < x * EULER" and "x * EULER < y * EULER"
    using assms EULER_pos by simp_all
  then have "1 / (y * EULER) < 1 / (x * EULER)"
    by (simp add: frac_less2)
  then show ?thesis
    by (simp only: mixVal_eq)
qed

lemma mixVal_tendsto_0: "(\<lambda>n::nat. mixVal (real n)) \<longlonglongrightarrow> 0"
proof -
  have "(\<lambda>n::nat. (1 / EULER) * (1 / real n)) \<longlonglongrightarrow> (1 / EULER) * 0"
    by (intro tendsto_mult tendsto_const lim_1_over_n)
  then show ?thesis
    by (simp add: mixVal_def field_simps)
qed

text \<open>
  The constant \<open>EULER\<close> is Euler's number to fifteen decimal places: the Maclaurin polynomial
  of degree 18 at 1, with the remainder below \<open>3 / 19!\<close>, brackets \<open>exp 1\<close>.
\<close>

lemma EULER_approx: "\<bar>EULER - exp 1\<bar> < 1 / 10 ^ 15"
proof -
  obtain t :: real where t: "\<bar>t\<bar> \<le> \<bar>1::real\<bar>"
    and e: "exp (1::real) = (\<Sum>m<19. (1 ^ m) / fact m) + (exp t / fact 19) * 1 ^ 19"
    using Maclaurin_exp_le [of 1 19] by blast
  have "exp t \<le> exp 1" using t by simp
  also have "\<dots> \<le> 3" using exp_le by simp
  finally have t3: "exp t \<le> 3" .
  have t0: "0 < exp t" by simp
  have s: "(\<Sum>m<19. (1 ^ m) / fact m :: real) = 17403456103284421 / 6402373705728000"
    by (simp add: lessThan_nat_numeral lessThan_Suc fact_numeral)
  have f: "(fact 19 :: real) = 121645100408832000"
    by (simp add: fact_numeral)
  have lo: "17403456103284421 / 6402373705728000 < exp (1::real)"
    using e t0 unfolding s f by simp
  have "exp t / 121645100408832000 \<le> 3 / 121645100408832000"
    using t3 by simp
  then have hi: "exp (1::real) \<le> 17403456103284421 / 6402373705728000 + 3 / 121645100408832000"
    using e unfolding s f by simp
  show ?thesis
    using lo hi by (simp add: EULER_def abs_less_iff)
qed

lemma mixVal_near_e:
  assumes "1 \<le> x"
  shows "\<bar>mixVal x - 1 / (x * exp 1)\<bar> < 1 / 10 ^ 15"
proof -
  have x: "0 < x" using assms by simp
  have e1: "1 \<le> exp (1::real)" by simp
  have E1: "1 \<le> EULER" by (simp add: EULER_def)
  have "mixVal x - 1 / (x * exp 1) = (exp 1 - EULER) / (x * EULER * exp 1)"
    using x EULER_pos by (simp add: mixVal_eq field_simps)
  then have "\<bar>mixVal x - 1 / (x * exp 1)\<bar> = \<bar>EULER - exp 1\<bar> / (x * EULER * exp 1)"
    using x EULER_pos by (simp add: abs_mult abs_minus_commute)
  also have "\<dots> \<le> \<bar>EULER - exp 1\<bar> / 1"
  proof (rule divide_left_mono)
    have "1 * 1 * 1 \<le> x * EULER * exp 1"
      using assms E1 e1 by (intro mult_mono) simp_all
    then show "1 \<le> x * EULER * exp 1" by simp
    show "0 \<le> \<bar>EULER - exp 1\<bar>" by simp
    show "0 < x * EULER * exp 1 * 1" using x EULER_pos by simp
  qed
  finally show ?thesis using EULER_approx by simp
qed

lemma mixVal_1_approx: "\<bar>mixVal 1 - 3679 / 10000\<bar> < 5 / 100000"
  by (simp add: mixVal_def EULER_def abs_less_iff)

text \<open>
  C3. The weight of the new sample at sample count \<open>n\<close> is \<open>1 / (n * EULER)\<close>, where
  \<open>EULER\<close> is the shader's constant for Euler's number (within \<open>10\<^sup>-\<^sup>1\<^sup>5\<close> of \<open>exp 1\<close>, and so
  is the weight within \<open>10\<^sup>-\<^sup>1\<^sup>5\<close> of \<open>1 / (n * exp 1)\<close> for \<open>n \<ge> 1\<close>). At \<open>n = 1\<close> it is
  0.3679 to four decimal places, it is strictly decreasing over \<open>n \<ge> 1\<close>, and it tends to 0
  as \<open>n\<close> grows.
\<close>

theorem blend_weight_law:
  "(\<forall>n::nat. mixVal (real n) = 1 / (real n * EULER))
   \<and> \<bar>EULER - exp 1\<bar> < 1 / 10 ^ 15
   \<and> (\<forall>n::nat. 1 \<le> n \<longrightarrow> \<bar>mixVal (real n) - 1 / (real n * exp 1)\<bar> < 1 / 10 ^ 15)
   \<and> \<bar>mixVal 1 - 3679 / 10000\<bar> < 5 / 100000
   \<and> (\<forall>m n::nat. 1 \<le> m \<and> m < n \<longrightarrow> mixVal (real n) < mixVal (real m))
   \<and> (\<lambda>n::nat. mixVal (real n)) \<longlonglongrightarrow> 0"
proof (intro conjI allI impI)
  fix n :: nat
  show "mixVal (real n) = 1 / (real n * EULER)" by (rule mixVal_eq)
next
  show "\<bar>EULER - exp 1\<bar> < 1 / 10 ^ 15" by (rule EULER_approx)
next
  fix n :: nat assume "1 \<le> n"
  then show "\<bar>mixVal (real n) - 1 / (real n * exp 1)\<bar> < 1 / 10 ^ 15"
    by (intro mixVal_near_e) simp
next
  show "\<bar>mixVal 1 - 3679 / 10000\<bar> < 5 / 100000" by (rule mixVal_1_approx)
next
  fix m n :: nat assume "1 \<le> m \<and> m < n"
  then show "mixVal (real n) < mixVal (real m)"
    by (intro mixVal_antimono) simp_all
next
  show "(\<lambda>n::nat. mixVal (real n)) \<longlonglongrightarrow> 0" by (rule mixVal_tendsto_0)
qed

theorem blend_weight_law_witness:
  "(1::nat) \<le> 1 \<and> (1::nat) < 2 \<and> mixVal (real 2) < mixVal (real 1)
   \<and> \<bar>mixVal (real 1) - 1 / (real 1 * exp 1)\<bar> < 1 / 10 ^ 15"
proof -
  have mono: "\<forall>m n::nat. 1 \<le> m \<and> m < n \<longrightarrow> mixVal (real n) < mixVal (real m)"
    and near: "\<forall>n::nat. 1 \<le> n \<longrightarrow> \<bar>mixVal (real n) - 1 / (real n * exp 1)\<bar> < 1 / 10 ^ 15"
    using blend_weight_law by blast+
  have "mixVal (real 2) < mixVal (real 1)"
    using mono [rule_format, of 1 2] by simp
  moreover have "\<bar>mixVal (real 1) - 1 / (real 1 * exp 1)\<bar> < 1 / 10 ^ 15"
    using near [rule_format, of 1] by simp
  ultimately show ?thesis by simp
qed

subsection \<open>The temporal blend\<close>

lemma length3_less_iff:
  "length3 (x, y, z) < 1 / 1000 \<longleftrightarrow> x * x + y * y + z * z < 1 / 1000000"
proof -
  have s: "sqrt (1 / 1000000) = 1 / 1000"
    by (rule real_sqrt_unique) (simp_all add: power2_eq_square)
  have "length3 (x, y, z) < 1 / 1000 \<longleftrightarrow> sqrt (x * x + y * y + z * z) < sqrt (1 / 1000000)"
    unfolding s by (simp only: length3.simps)
  also have "\<dots> \<longleftrightarrow> x * x + y * y + z * z < 1 / 1000000"
    by (rule real_sqrt_less_iff)
  finally show ?thesis .
qed

lemma length3_half: "\<not> length3 (1 / 2, 1 / 2, 1 / 2) < 1 / 1000"
  by (subst length3_less_iff) simp

lemma main_temporal_rgb:
  "rgb (main True inputBuffer lastFrameReflectionsBuffer velocityBuffer n vUv) =
    (let h = div3 (add3 (rgb (lastFrameReflectionsBuffer vUv))
                        (rgb (lastFrameReflectionsBuffer (sub2 vUv (xy (velocityBuffer vUv)))))) 2
     in if length3 h < 1 / 1000 then mix3 h (add3 h (rgb (inputBuffer vUv))) (1 / 4)
        else mix3 h (rgb (inputBuffer vUv)) (mixVal n))"
  by (simp add: main_def Let_def rgb_def)

lemma main_temporal_alpha:
  "alpha (main True inputBuffer lastFrameReflectionsBuffer velocityBuffer n vUv) =
     mix (alpha (lastFrameReflectionsBuffer vUv)) (alpha (inputBuffer vUv) + 1 / 2) (mixVal n)"
  by (simp add: main_def Let_def rgb_def)

lemma ex_lastFrame_rgb:
  "rgb (main True ex_inputBuffer ex_lastFrame ex_velocityBuffer n (1 / 2, 1 / 2)) =
     mix3 (1 / 2, 1 / 2, 1 / 2) (1 / 5, 2 / 5, 3 / 5) (mixVal n)"
proof -
  have h: "div3 (add3 (rgb (ex_lastFrame (1 / 2, 1 / 2)))
             (rgb (ex_lastFrame (sub2 (1 / 2, 1 / 2) (xy (ex_velocityBuffer (1 / 2, 1 / 2))))))) 2
           = (1 / 2, 1 / 2, 1 / 2)"
    by (simp add: ex_lastFrame_def ex_velocityBuffer_def rgb_def xy_def)
  have i: "rgb (ex_inputBuffer (1 / 2, 1 / 2)) = (1 / 5, 2 / 5, 3 / 5)"
    by (simp add: ex_inputBuffer_def rgb_def)
  show ?thesis
    unfolding main_temporal_rgb Let_def h i using length3_half by (simp only: if_False)
qed

lemma ex_lastFrame_alpha:
  "alpha (main True ex_inputBuffer ex_lastFrame ex_velocityBuffer n (1 / 2, 1 / 2)) =
     mix 1 1 (mixVal n)"
  by (simp add: main_temporal_alpha ex_lastFrame_def ex_inputBuffer_def)

lemma ex_reprojected:
  "ex_lastFrame (sub2 (1 / 2, 1 / 2) (xy (ex_velocityBuffer (1 / 2, 1 / 2)))) =
     \<lparr>red = 0, green = 0, blue = 0, alpha = 0\<rparr>"
  by (simp add: ex_lastFrame_def ex_velocityBuffer_def xy_def)

text \<open>
  C1, as amended. In temporal mode with sample count \<open>n \<ge> 1\<close> the resolver reads the previous
  buffer twice, at the pixel's own coordinate and at that coordinate minus the velocity, and
  takes the average \<open>h\<close> of the two colours as the history colour. Unless the disocclusion
  rule applies (\<open>length h < 0.001\<close>) the resolved colour is \<open>mix(h, current, w)\<close> with
  \<open>w = 1 / (n * EULER)\<close>. The resolved confidence is
  \<open>mix(previous confidence, current confidence + 0.5, w)\<close>, where the previous confidence is
  the one read at the pixel's own coordinate, not the reprojected one.
\<close>

theorem temporal_resolve_blend:
  fixes n :: nat
  assumes "1 \<le> n"
  shows
    "let h = div3 (add3 (rgb (lastFrameReflectionsBuffer vUv))
                        (rgb (lastFrameReflectionsBuffer (sub2 vUv (xy (velocityBuffer vUv)))))) 2;
         w = 1 / (real n * EULER);
         out = main True inputBuffer lastFrameReflectionsBuffer velocityBuffer (real n) vUv
     in (\<not> length3 h < 1 / 1000 \<longrightarrow> rgb out = mix3 h (rgb (inputBuffer vUv)) w)
        \<and> alpha out = mix (alpha (lastFrameReflectionsBuffer vUv)) (alpha (inputBuffer vUv) + 1 / 2) w"
  by (simp add: main_temporal_rgb main_temporal_alpha Let_def mixVal_eq)

theorem temporal_resolve_blend_witness:
  "(1::nat) \<le> 1
   \<and> \<not> length3 (1 / 2, 1 / 2, 1 / 2) < 1 / 1000
   \<and> rgb (main True ex_inputBuffer ex_lastFrame ex_velocityBuffer (real 1) (1 / 2, 1 / 2))
       = mix3 (1 / 2, 1 / 2, 1 / 2) (1 / 5, 2 / 5, 3 / 5) (1 / (real 1 * EULER))
   \<and> alpha (main True ex_inputBuffer ex_lastFrame ex_velocityBuffer (real 1) (1 / 2, 1 / 2))
       = mix 1 (1 / 2 + 1 / 2) (1 / (real 1 * EULER))"
proof -
  have h: "div3 (add3 (rgb (ex_lastFrame (1 / 2, 1 / 2)))
             (rgb (ex_lastFrame (sub2 (1 / 2, 1 / 2) (xy (ex_velocityBuffer (1 / 2, 1 / 2))))))) 2
           = (1 / 2, 1 / 2, 1 / 2)"
    by (simp add: ex_lastFrame_def ex_velocityBuffer_def rgb_def xy_def)
  have i: "rgb (ex_inputBuffer (1 / 2, 1 / 2)) = (1 / 5, 2 / 5, 3 / 5)"
    by (simp add: ex_inputBuffer_def rgb_def)
  have a: "alpha (ex_lastFrame (1 / 2, 1 / 2)) = 1" "alpha (ex_inputBuffer (1 / 2, 1 / 2)) = 1 / 2"
    by (simp_all add: ex_lastFrame_def ex_inputBuffer_def)
  have le: "(1::nat) \<le> 1" by simp
  show ?thesis
    using temporal_resolve_blend [OF le, of ex_lastFrame "(1 / 2, 1 / 2)" ex_velocityBuffer ex_inputBuffer]
      length3_half
    unfolding Let_def h i a
    by blast
qed

text \<open>
  The claim as written fails where the previous frame holds different colours at the pixel and
  at its reprojected coordinate: the resolved colour is not the blend of the reprojected colour
  alone, and the resolved confidence is not blended from the reprojected confidence.
\<close>

theorem temporal_resolve_blend_counterexample:
  "rgb (main True ex_inputBuffer ex_lastFrame ex_velocityBuffer 1 (1 / 2, 1 / 2)) \<noteq>
     mix3 (rgb (ex_lastFrame (sub2 (1 / 2, 1 / 2) (xy (ex_velocityBuffer (1 / 2, 1 / 2))))))
          (rgb (ex_inputBuffer (1 / 2, 1 / 2))) (1 / (1 * EULER))
   \<and> alpha (main True ex_inputBuffer ex_lastFrame ex_velocityBuffer 1 (1 / 2, 1 / 2)) \<noteq>
     mix (alpha (ex_lastFrame (sub2 (1 / 2, 1 / 2) (xy (ex_velocityBuffer (1 / 2, 1 / 2))))))
         (alpha (ex_inputBuffer (1 / 2, 1 / 2)) + 1 / 2) (1 / (1 * EULER))"
  unfolding ex_lastFrame_rgb ex_lastFrame_alpha ex_reprojected
  by (simp add: mixVal_def mix_def EULER_def ex_inputBuffer_def rgb_def)

subsection \<open>Disocclusion\<close>

text \<open>
  C2, as amended. In temporal mode, whenever the length of the history colour \<open>h\<close> (the
  average of the previous colour at the pixel's coordinate and the previous colour at the
  reprojected coordinate) is below 0.001, the resolved colour is \<open>mix(h, h + current, 0.25)\<close>
  and not the standard blend.
\<close>

theorem disocclusion_rule:
  "let h = div3 (add3 (rgb (lastFrameReflectionsBuffer vUv))
                      (rgb (lastFrameReflectionsBuffer (sub2 vUv (xy (velocityBuffer vUv)))))) 2
   in length3 h < 1 / 1000 \<longrightarrow>
      rgb (main True inputBuffer lastFrameReflectionsBuffer velocityBuffer n vUv) =
        mix3 h (add3 h (rgb (inputBuffer vUv))) (1 / 4)"
  by (simp add: main_temporal_rgb Let_def)

theorem disocclusion_rule_witness:
  "length3 (0, 0, 0) < 1 / 1000
   \<and> rgb (main True ex_inputBuffer ex_emptyFrame ex_velocityBuffer 3 (1 / 2, 1 / 2)) =
       (1 / 20, 1 / 10, 3 / 20)"
proof -
  have h: "div3 (add3 (rgb (ex_emptyFrame (1 / 2, 1 / 2)))
             (rgb (ex_emptyFrame (sub2 (1 / 2, 1 / 2) (xy (ex_velocityBuffer (1 / 2, 1 / 2))))))) 2
           = (0, 0, 0)"
    by (simp add: ex_emptyFrame_def rgb_def)
  show ?thesis
    using disocclusion_rule [of ex_emptyFrame "(1 / 2, 1 / 2)" ex_velocityBuffer ex_inputBuffer 3]
    unfolding Let_def h
    by (simp add: ex_inputBuffer_def rgb_def mix_def)
qed

text \<open>
  The claim as written fails where the reprojected colour is empty and the colour at the
  pixel's own coordinate is not: the standard blend is used, and the result is neither
  \<open>mix(p, p + current, 0.25)\<close> for the reprojected colour \<open>p\<close> nor for the history colour.
\<close>

theorem disocclusion_rule_counterexample:
  "length3 (rgb (ex_lastFrame (sub2 (1 / 2, 1 / 2) (xy (ex_velocityBuffer (1 / 2, 1 / 2)))))) < 1 / 1000
   \<and> rgb (main True ex_inputBuffer ex_lastFrame ex_velocityBuffer 1 (1 / 2, 1 / 2)) \<noteq>
       mix3 (rgb (ex_lastFrame (sub2 (1 / 2, 1 / 2) (xy (ex_velocityBuffer (1 / 2, 1 / 2))))))
            (add3 (rgb (ex_lastFrame (sub2 (1 / 2, 1 / 2) (xy (ex_velocityBuffer (1 / 2, 1 / 2))))))
                  (rgb (ex_inputBuffer (1 / 2, 1 / 2))))
            (1 / 4)
   \<and> rgb (main True ex_inputBuffer ex_lastFrame ex_velocityBuffer 1 (1 / 2, 1 / 2)) =
       mix3 (1 / 2, 1 / 2, 1 / 2) (rgb (ex_inputBuffer (1 / 2, 1 / 2))) (mixVal 1)"
  unfolding ex_lastFrame_rgb ex_reprojected
  by (simp add: mixVal_def mix_def EULER_def ex_inputBuffer_def rgb_def)

section \<open>Properties of the reactive configuration\<close>

subsection \<open>parseInt on numbers\<close>

lemma parseInt_examples:
  "parseInt (JNum 20) = JNum 20"
  "parseInt (JNum (- 1237 / 10)) = JNum (- 123)"
  "parseInt (JNum (5 / 10 ^ 7)) = JNum 5"
  "parseInt (JNum (10 ^ 21)) = JNum 1"
  "parseInt JUndefined = JNaN"
  by code_simp+

subsection \<open>What setSize changes\<close>

lemma setSize_forced:
  "setSize w h True s =
     s\<lparr>temporalResolvePass := pass_setSize w h (temporalResolvePass s),
       reflectionsPass := pass_setSize w h (reflectionsPass s),
       lastSize := \<lparr>width = w, height = h,
                    resolutionScale = this_option s ''resolutionScale'',
                    velocityResolutionScale = this_option s ''velocityResolutionScale''\<rparr>\<rparr>"
  by (simp add: setSize_def)

lemma setSize_frame:
  "samples (setSize w h f s) = samples s"
  "options (setSize w h f s) = options s"
  "needsUpdate (setSize w h f s) = needsUpdate s"
  "dpr (setSize w h f s) = dpr s"
  "reflectionPassFullscreenMaterialUniformsKeys (setSize w h f s) =
     reflectionPassFullscreenMaterialUniformsKeys s"
  "reactive (setSize w h f s) = reactive s"
  "uniforms (setSize w h f s) = uniforms s"
  "fullscreenMaterial (reflectionsPass (setSize w h f s)) = fullscreenMaterial (reflectionsPass s)"
  "fullscreenMaterial (temporalResolvePass (setSize w h f s)) =
     fullscreenMaterial (temporalResolvePass s)"
  "pass_velocityResolutionScale (temporalResolvePass (setSize w h f s)) =
     pass_velocityResolutionScale (temporalResolvePass s)"
  by (simp_all add: setSize_def pass_setSize_def)

lemma setSize_sizeCalls:
  "sizeCalls (temporalResolvePass (setSize w h f s)) =
     sizeCalls (temporalResolvePass s) @ (if setSize w h f s = s \<and> \<not> f then [] else [(w, h)])"
  "sizeCalls (reflectionsPass (setSize w h f s)) =
     sizeCalls (reflectionsPass s) @ (if setSize w h f s = s \<and> \<not> f then [] else [(w, h)])"
  by (auto simp add: setSize_def pass_setSize_def)

lemma setSize_sizeCalls_ext:
  "\<exists>ext. sizeCalls (temporalResolvePass (setSize w h f s)) = sizeCalls (temporalResolvePass s) @ ext"
  "\<exists>ext. sizeCalls (reflectionsPass (setSize w h f s)) = sizeCalls (reflectionsPass s) @ ext"
  using setSize_sizeCalls [of w h f s] by blast+

lemma setSize_forced_sizeCalls:
  "sizeCalls (temporalResolvePass (setSize w h True s)) = sizeCalls (temporalResolvePass s) @ [(w, h)]"
  "sizeCalls (reflectionsPass (setSize w h True s)) = sizeCalls (reflectionsPass s) @ [(w, h)]"
  by (simp_all add: setSize_forced pass_setSize_def)

text \<open>
  C6. \<^verbatim>\<open>setSize(width, height, force)\<close> leaves the effect as it is when \<open>force\<close> is false and
  width, height, \<^verbatim>\<open>this.resolutionScale\<close> and \<^verbatim>\<open>this.velocityResolutionScale\<close> are strictly
  equal to the recorded \<open>lastSize\<close>. With \<open>force\<close> true it always calls \<^verbatim>\<open>setSize\<close> of both
  sub-passes and records a new \<open>lastSize\<close>, whatever the values.
\<close>

theorem setSize_dedupe:
  "(strict_eq w (width (lastSize s)) \<and> strict_eq h (height (lastSize s)) \<and>
    strict_eq (this_option s ''resolutionScale'') (resolutionScale (lastSize s)) \<and>
    strict_eq (this_option s ''velocityResolutionScale'') (velocityResolutionScale (lastSize s))
    \<longrightarrow> setSize w h False s = s)
   \<and> setSize w h True s =
       s\<lparr>temporalResolvePass := pass_setSize w h (temporalResolvePass s),
         reflectionsPass := pass_setSize w h (reflectionsPass s),
         lastSize := \<lparr>width = w, height = h,
                      resolutionScale = this_option s ''resolutionScale'',
                      velocityResolutionScale = this_option s ''velocityResolutionScale''\<rparr>\<rparr>
   \<and> sizeCalls (temporalResolvePass (setSize w h True s)) =
       sizeCalls (temporalResolvePass s) @ [(w, h)]
   \<and> sizeCalls (reflectionsPass (setSize w h True s)) =
       sizeCalls (reflectionsPass s) @ [(w, h)]"
  by (simp add: setSize_forced_sizeCalls) (simp add: setSize_def)

theorem setSize_dedupe_witness:
  "strict_eq (JNum 800) (width (lastSize example_effect))
   \<and> strict_eq (JNum 600) (height (lastSize example_effect))
   \<and> strict_eq (this_option example_effect ''resolutionScale'')
        (resolutionScale (lastSize example_effect))
   \<and> strict_eq (this_option example_effect ''velocityResolutionScale'')
        (velocityResolutionScale (lastSize example_effect))
   \<and> setSize (JNum 800) (JNum 600) False example_effect = example_effect
   \<and> sizeCalls (reflectionsPass (setSize (JNum 800) (JNum 600) True example_effect)) =
       sizeCalls (reflectionsPass example_effect) @ [(JNum 800, JNum 600)]"
proof -
  have same:
    "strict_eq (JNum 800) (width (lastSize example_effect))
     \<and> strict_eq (JNum 600) (height (lastSize example_effect))
     \<and> strict_eq (this_option example_effect ''resolutionScale'')
          (resolutionScale (lastSize example_effect))
     \<and> strict_eq (this_option example_effect ''velocityResolutionScale'')
          (velocityResolutionScale (lastSize example_effect))"
    by code_simp
  show ?thesis
    using same setSize_dedupe [of "JNum 800" example_effect "JNum 600"] by blast
qed

subsection \<open>What the switch changes\<close>

lemma write_uniform_Inr:
  "write_uniform k v us = Inr us' \<Longrightarrow> us' = AList.update k v us \<and> map_of us k \<noteq> None"
  by (auto simp add: write_uniform_def split: option.splits)

lemma write_pass_uniform_Inr:
  "write_pass_uniform k v p = Inr p' \<Longrightarrow>
     sizeCalls p' = sizeCalls p \<and> mat_defines (fullscreenMaterial p') = mat_defines (fullscreenMaterial p)"
  by (auto simp add: write_pass_uniform_def split: sum.splits)

lemma define_sizeCalls:
  "sizeCalls (set_define k d nu p) = sizeCalls p"
  "sizeCalls (delete_define k nu p) = sizeCalls p"
  by (simp_all add: set_define_def delete_define_def)

lemma setter_switch_frame:
  assumes "setter_switch key v s = Inr s'"
  shows "samples s' = samples s"
    and "options s' = options s"
    and "needsUpdate s' = needsUpdate s"
  using assms
  by (auto simp add: setter_switch_def setSize_frame split: if_splits sum.splits)

lemma setter_switch_sizeCalls:
  assumes "setter_switch key v s = Inr s'"
  shows "\<exists>ext. sizeCalls (temporalResolvePass s') = sizeCalls (temporalResolvePass s) @ ext"
    and "\<exists>ext. sizeCalls (reflectionsPass s') = sizeCalls (reflectionsPass s) @ ext"
  using assms setSize_sizeCalls_ext
  by (auto simp add: setter_switch_def define_sizeCalls setSize_forced_sizeCalls
      dest!: write_pass_uniform_Inr split: if_splits sum.splits)


subsection \<open>The setter\<close>

lemma setter_same_value:
  "strict_eq (obj_get (options s) key) v \<Longrightarrow> needsUpdate s \<Longrightarrow> setter key v s = Inr s"
  by (simp add: setter_def)

lemma setter_reset:
  assumes "key \<notin> set noResetSamplesProperties"
    and "\<not> (strict_eq (obj_get (options s) key) v \<and> needsUpdate s)"
  shows "setter key v s =
           setter_switch key v
             (setSize (obj_get (AList.update key v (options s)) ''width'')
                      (obj_get (AList.update key v (options s)) ''height'') True
                (s\<lparr>options := AList.update key v (options s), samples := JNum 0\<rparr>))"
  using assms by (auto simp add: setter_def Let_def)

lemma setter_needsUpdate:
  assumes "setter key v s = Inr s'"
  shows "needsUpdate s' = needsUpdate s"
proof (cases "strict_eq (obj_get (options s) key) v \<and> needsUpdate s")
  case True
  then show ?thesis using assms by (simp add: setter_def)
next
  case False
  then obtain s2 where "setter_switch key v s2 = Inr s'" and "needsUpdate s2 = needsUpdate s"
    using assms by (auto simp add: setter_def Let_def setSize_frame split: if_splits)
  then show ?thesis
    using setter_switch_frame(3) by metis
qed

text \<open>The concrete effect is what \<^verbatim>\<open>makeOptionsReactive\<close> returns for the constructed one.\<close>

lemma example_effect_reachable:
  "makeOptionsReactive 1 example_options example_constructed = Inr example_effect"
  by code_simp

text \<open>
  C4, as amended. For every configuration key outside \<open>blurMix\<close>, \<open>blurSharpness\<close> and
  \<open>blurKernelSize\<close>, assigning a value that is not strictly equal to the key's current value
  (or any value while \<^verbatim>\<open>makeOptionsReactive\<close> is still running) sets \<open>samples\<close> to 0 and calls
  \<^verbatim>\<open>setSize\<close> with \<open>force = true\<close> before the key's own case runs, so both sub-passes
  receive a \<^verbatim>\<open>setSize\<close> call even when no dimension has changed.
\<close>

theorem change_resets_samples_and_forces_resize:
  assumes "key \<notin> set noResetSamplesProperties"
    and "\<not> (strict_eq (obj_get (options s) key) v \<and> needsUpdate s)"
    and "setter key v s = Inr s'"
  shows
    "let opts = AList.update key v (options s);
         w = obj_get opts ''width'';
         h = obj_get opts ''height''
     in setter key v s =
          setter_switch key v (setSize w h True (s\<lparr>options := opts, samples := JNum 0\<rparr>))
        \<and> samples s' = JNum 0
        \<and> (\<exists>rest. sizeCalls (temporalResolvePass s') =
                     sizeCalls (temporalResolvePass s) @ (w, h) # rest)
        \<and> (\<exists>rest. sizeCalls (reflectionsPass s') =
                     sizeCalls (reflectionsPass s) @ (w, h) # rest)"
proof -
  define opts where "opts = AList.update key v (options s)"
  define w where "w = obj_get opts ''width''"
  define h where "h = obj_get opts ''height''"
  define s2 where "s2 = setSize w h True (s\<lparr>options := opts, samples := JNum 0\<rparr>)"
  have run: "setter key v s = setter_switch key v s2"
    unfolding s2_def w_def h_def opts_def using assms(1,2) by (rule setter_reset)
  then have sw: "setter_switch key v s2 = Inr s'"
    using assms(3) by simp
  have "samples s' = samples s2"
    using sw by (rule setter_switch_frame(1))
  then have smp: "samples s' = JNum 0"
    by (simp add: s2_def setSize_frame)
  obtain e1 where "sizeCalls (temporalResolvePass s') = sizeCalls (temporalResolvePass s2) @ e1"
    using setter_switch_sizeCalls(1) [OF sw] by blast
  then have t: "sizeCalls (temporalResolvePass s') = sizeCalls (temporalResolvePass s) @ (w, h) # e1"
    by (simp add: s2_def setSize_forced_sizeCalls)
  obtain e2 where "sizeCalls (reflectionsPass s') = sizeCalls (reflectionsPass s2) @ e2"
    using setter_switch_sizeCalls(2) [OF sw] by blast
  then have r: "sizeCalls (reflectionsPass s') = sizeCalls (reflectionsPass s) @ (w, h) # e2"
    by (simp add: s2_def setSize_forced_sizeCalls)
  show ?thesis
    using run smp t r unfolding Let_def s2_def w_def h_def opts_def by blast
qed

theorem change_resets_samples_and_forces_resize_witness:
  "''MAX_STEPS'' \<notin> set noResetSamplesProperties
   \<and> \<not> (strict_eq (obj_get (options example_effect) ''MAX_STEPS'') (JNum 30)
          \<and> needsUpdate example_effect)
   \<and> (\<exists>s'. setter ''MAX_STEPS'' (JNum 30) example_effect = Inr s'
           \<and> samples s' = JNum 0
           \<and> (\<exists>rest. sizeCalls (reflectionsPass s') =
                 sizeCalls (reflectionsPass example_effect) @ (JNum 800, JNum 600) # rest))"
proof -
  have k: "''MAX_STEPS'' \<notin> set noResetSamplesProperties"
    by code_simp
  have c: "\<not> (strict_eq (obj_get (options example_effect) ''MAX_STEPS'') (JNum 30)
              \<and> needsUpdate example_effect)"
    by code_simp
  have "case setter ''MAX_STEPS'' (JNum 30) example_effect of Inl _ \<Rightarrow> False | Inr _ \<Rightarrow> True"
    by code_simp
  then obtain s' where e: "setter ''MAX_STEPS'' (JNum 30) example_effect = Inr s'"
    by (auto split: sum.splits)
  have w: "obj_get (AList.update ''MAX_STEPS'' (JNum 30) (options example_effect)) ''width'' = JNum 800"
    and h: "obj_get (AList.update ''MAX_STEPS'' (JNum 30) (options example_effect)) ''height'' = JNum 600"
    by code_simp+
  show ?thesis
    using change_resets_samples_and_forces_resize [OF k c e] k c e
    unfolding Let_def w h by blast
qed

text \<open>
  The claim as written fails for an assignment of the value the key already holds: once
  \<^verbatim>\<open>makeOptionsReactive\<close> has returned the setter returns at once, and no \<^verbatim>\<open>setSize\<close> call is
  made (a forced call would have changed the effect).
\<close>

theorem change_resets_samples_and_forces_resize_counterexample:
  "''MAX_STEPS'' \<notin> set noResetSamplesProperties
   \<and> setter ''MAX_STEPS'' (JNum 20) example_effect = Inr example_effect
   \<and> setSize (obj_get (AList.update ''MAX_STEPS'' (JNum 20) (options example_effect)) ''width'')
        (obj_get (AList.update ''MAX_STEPS'' (JNum 20) (options example_effect)) ''height'') True
        example_effect \<noteq> example_effect"
  by code_simp

lemma setter_switch_blurMix:
  "setter_switch ''blurMix'' v t =
     (case write_uniform ''blurMix'' v (uniforms t) of
        Inl e \<Rightarrow> Inl e | Inr us \<Rightarrow> Inr (t\<lparr>uniforms := us\<rparr>))"
  by (simp add: setter_switch_def)

lemma setter_switch_blurSharpness:
  "setter_switch ''blurSharpness'' v t =
     (case write_uniform ''blurSharpness'' v (uniforms t) of
        Inl e \<Rightarrow> Inl e | Inr us \<Rightarrow> Inr (t\<lparr>uniforms := us\<rparr>))"
  by (simp add: setter_switch_def)

lemma setter_switch_blurKernelSize:
  "setter_switch ''blurKernelSize'' v t =
     (case write_uniform ''blurKernelSize'' v (uniforms t) of
        Inl e \<Rightarrow> Inl e | Inr us \<Rightarrow> Inr (t\<lparr>uniforms := us\<rparr>))"
  by (simp add: setter_switch_def)

text \<open>
  C5. For every key in \<open>blurMix\<close>, \<open>blurSharpness\<close> and \<open>blurKernelSize\<close> (whose uniform
  the constructor has created), an assignment stores the value in the options and writes it to
  the effect's uniform of that name, and nothing else: \<open>samples\<close> and \<open>lastSize\<close> are
  unchanged and neither sub-pass is touched, so no \<^verbatim>\<open>setSize\<close> call reaches them.
\<close>

theorem allowlisted_change_writes_uniform_only:
  assumes "key \<in> set noResetSamplesProperties"
    and "map_of (uniforms s) key \<noteq> None"
  shows
    "setter key v s =
       Inr (if strict_eq (obj_get (options s) key) v \<and> needsUpdate s then s
            else s\<lparr>options := AList.update key v (options s),
                   uniforms := AList.update key v (uniforms s)\<rparr>)
     \<and> (\<exists>s'. setter key v s = Inr s'
             \<and> samples s' = samples s
             \<and> lastSize s' = lastSize s
             \<and> reflectionsPass s' = reflectionsPass s
             \<and> temporalResolvePass s' = temporalResolvePass s
             \<and> (\<forall>k. k \<noteq> key \<longrightarrow> map_of (uniforms s') k = map_of (uniforms s) k))"
proof -
  have key: "key = ''blurMix'' \<or> key = ''blurSharpness'' \<or> key = ''blurKernelSize''"
    using assms(1) by (simp add: noResetSamplesProperties_def)
  have wr: "write_uniform key v (uniforms s) = Inr (AList.update key v (uniforms s))"
    using assms(2) by (auto simp add: write_uniform_def)
  have sw: "setter_switch key v (s\<lparr>options := AList.update key v (options s)\<rparr>) =
              Inr (s\<lparr>options := AList.update key v (options s),
                     uniforms := AList.update key v (uniforms s)\<rparr>)"
    using key wr
    by (elim disjE)
      (simp_all add: setter_switch_blurMix setter_switch_blurSharpness setter_switch_blurKernelSize)
  have eq: "setter key v s =
       Inr (if strict_eq (obj_get (options s) key) v \<and> needsUpdate s then s
            else s\<lparr>options := AList.update key v (options s),
                   uniforms := AList.update key v (uniforms s)\<rparr>)"
    using assms(1) sw by (simp add: setter_def Let_def)
  show ?thesis
    unfolding eq by (simp add: update_conv')
qed

theorem allowlisted_change_writes_uniform_only_witness:
  "''blurMix'' \<in> set noResetSamplesProperties
   \<and> map_of (uniforms example_effect) ''blurMix'' \<noteq> None
   \<and> setter ''blurMix'' (JNum (3 / 4)) example_effect =
       Inr (example_effect\<lparr>options := AList.update ''blurMix'' (JNum (3 / 4)) (options example_effect),
                           uniforms := AList.update ''blurMix'' (JNum (3 / 4)) (uniforms example_effect)\<rparr>)"
proof -
  have k: "''blurMix'' \<in> set noResetSamplesProperties"
    by code_simp
  have u: "map_of (uniforms example_effect) ''blurMix'' \<noteq> None"
    by code_simp
  have c: "\<not> (strict_eq (obj_get (options example_effect) ''blurMix'') (JNum (3 / 4))
              \<and> needsUpdate example_effect)"
    by code_simp
  show ?thesis
    using allowlisted_change_writes_uniform_only [OF k u, of "JNum (3 / 4)"] k u c by simp
qed

text \<open>
  C10. When \<^verbatim>\<open>makeOptionsReactive\<close> has returned, \<open>needsUpdate\<close> is true and stays true; from
  then on an assignment of a value strictly equal to the key's current value returns at once
  and leaves the whole effect as it was, for every key, inside the allow-list or not.
\<close>

theorem same_value_assignment_returns:
  "(makeOptionsReactive d opts s0 = Inr s \<longrightarrow> needsUpdate s)
   \<and> (needsUpdate s \<and> setter key v s = Inr s' \<longrightarrow> needsUpdate s')
   \<and> (needsUpdate s \<and> strict_eq (obj_get (options s) key) v \<longrightarrow> setter key v s = Inr s)"
proof (intro conjI impI)
  assume "makeOptionsReactive d opts s0 = Inr s"
  then show "needsUpdate s"
    by (auto simp add: makeOptionsReactive_def Let_def split: sum.splits)
next
  assume "needsUpdate s \<and> setter key v s = Inr s'"
  then show "needsUpdate s'"
    using setter_needsUpdate by blast
next
  assume "needsUpdate s \<and> strict_eq (obj_get (options s) key) v"
  then show "setter key v s = Inr s"
    by (simp add: setter_same_value)
qed

theorem same_value_assignment_returns_witness:
  "makeOptionsReactive 1 example_options example_constructed = Inr example_effect
   \<and> needsUpdate example_effect
   \<and> strict_eq (obj_get (options example_effect) ''resolutionScale'') (JNum 1)
   \<and> setter ''resolutionScale'' (JNum 1) example_effect = Inr example_effect"
proof -
  have r: "makeOptionsReactive 1 example_options example_constructed = Inr example_effect"
    by (rule example_effect_reachable)
  have e: "strict_eq (obj_get (options example_effect) ''resolutionScale'') (JNum 1)"
    by code_simp
  show ?thesis
    using same_value_assignment_returns
      [of 1 example_options example_constructed example_effect "''resolutionScale''" "JNum 1"] r e
    by blast
qed

lemma setter_switch_default:
  assumes "key \<notin> set switch_cases"
  shows "setter_switch key v s =
           (if key \<in> set (reflectionPassFullscreenMaterialUniformsKeys s) then
              (case write_pass_uniform key v (reflectionsPass s) of
                 Inl e \<Rightarrow> Inl e
               | Inr p \<Rightarrow> Inr (s\<lparr>reflectionsPass := p\<rparr>))
            else Inr s)"
  using assms by (simp add: setter_switch_def switch_cases_def)

lemma obj_get_update_other:
  "k \<noteq> key \<Longrightarrow> obj_get (AList.update key v obj) k = obj_get obj k"
  by (simp add: obj_get_def update_conv')

text \<open>
  C7, as amended. The amendment is about the keys that the options object holds when
  \<^verbatim>\<open>makeOptionsReactive\<close> runs, the only keys that get an accessor (such as \<open>DILATION\<close>, which the
  constructor adds). Assigning a value to such a key that is not recognized (no dedicated case,
  and no uniform of that name on the ray marcher's material) raises no error and writes no
  uniform and no define. It is not ignored, though: unless the value is strictly equal to the
  key's current value once \<^verbatim>\<open>makeOptionsReactive\<close> has returned, the value is stored in the
  options, \<open>samples\<close> is set to 0 and a forced \<^verbatim>\<open>setSize\<close> reaches both sub-passes, as for
  every key outside the allow-list.
\<close>

theorem unrecognized_key_assignment:
  assumes "key \<in> set (reactive s)"
    and "key \<notin> set switch_cases"
    and "key \<notin> set (reflectionPassFullscreenMaterialUniformsKeys s)"
  shows
    "setter key v s =
       Inr (if strict_eq (obj_get (options s) key) v \<and> needsUpdate s then s
            else setSize (obj_get (options s) ''width'') (obj_get (options s) ''height'') True
                   (s\<lparr>options := AList.update key v (options s), samples := JNum 0\<rparr>))
     \<and> (\<exists>s'. setter key v s = Inr s'
             \<and> uniforms s' = uniforms s
             \<and> fullscreenMaterial (reflectionsPass s') = fullscreenMaterial (reflectionsPass s)
             \<and> fullscreenMaterial (temporalResolvePass s') =
                 fullscreenMaterial (temporalResolvePass s))"
proof -
  have k: "key \<notin> set noResetSamplesProperties" "key \<noteq> ''width''" "key \<noteq> ''height''"
    using assms(2) by (auto simp add: switch_cases_def noResetSamplesProperties_def)
  have eq: "setter key v s =
       Inr (if strict_eq (obj_get (options s) key) v \<and> needsUpdate s then s
            else setSize (obj_get (options s) ''width'') (obj_get (options s) ''height'') True
                   (s\<lparr>options := AList.update key v (options s), samples := JNum 0\<rparr>))"
  proof (cases "strict_eq (obj_get (options s) key) v \<and> needsUpdate s")
    case True
    then show ?thesis by (simp add: setter_same_value)
  next
    case False
    have "setter key v s =
            setter_switch key v
              (setSize (obj_get (options s) ''width'') (obj_get (options s) ''height'') True
                (s\<lparr>options := AList.update key v (options s), samples := JNum 0\<rparr>))"
      using setter_reset [OF k(1) False] k(2,3) by (simp add: obj_get_update_other)
    then have "setter key v s =
            Inr (setSize (obj_get (options s) ''width'') (obj_get (options s) ''height'') True
                  (s\<lparr>options := AList.update key v (options s), samples := JNum 0\<rparr>))"
      using assms(2,3) by (simp add: setter_switch_default setSize_frame)
    then show ?thesis
      using False by auto
  qed
  show ?thesis
    unfolding eq by (simp add: setSize_frame)
qed

theorem unrecognized_key_assignment_witness:
  "''DILATION'' \<in> set (reactive example_effect)
   \<and> ''DILATION'' \<notin> set switch_cases
   \<and> ''DILATION'' \<notin> set (reflectionPassFullscreenMaterialUniformsKeys example_effect)
   \<and> setter ''DILATION'' (JBool False) example_effect =
       Inr (setSize (JNum 800) (JNum 600) True
             (example_effect\<lparr>options := AList.update ''DILATION'' (JBool False) (options example_effect),
                             samples := JNum 0\<rparr>))"
proof -
  have r: "''DILATION'' \<in> set (reactive example_effect)"
    by code_simp
  have k: "''DILATION'' \<notin> set switch_cases"
    by code_simp
  have u: "''DILATION'' \<notin> set (reflectionPassFullscreenMaterialUniformsKeys example_effect)"
    by code_simp
  have c: "\<not> (strict_eq (obj_get (options example_effect) ''DILATION'') (JBool False)
              \<and> needsUpdate example_effect)"
    by code_simp
  have w: "obj_get (options example_effect) ''width'' = JNum 800"
    and h: "obj_get (options example_effect) ''height'' = JNum 600"
    by code_simp+
  show ?thesis
    using unrecognized_key_assignment [OF r k u, of "JBool False"] r k u c
    unfolding w h by simp
qed

text \<open>
  The claim as written fails for the key \<open>DILATION\<close>, which the constructor puts into the
  options (so it has an accessor) and which has no case and no uniform: assigning \<open>false\<close>
  to it stores the value and makes both sub-passes receive a \<^verbatim>\<open>setSize\<close> call.
\<close>

theorem unrecognized_key_assignment_counterexample:
  "''DILATION'' \<in> set (reactive example_effect)
   \<and> ''DILATION'' \<notin> set switch_cases
   \<and> ''DILATION'' \<notin> set (reflectionPassFullscreenMaterialUniformsKeys example_effect)
   \<and> (case setter ''DILATION'' (JBool False) example_effect of
        Inl _ \<Rightarrow> False
      | Inr s' \<Rightarrow>
          sizeCalls (temporalResolvePass s') =
            sizeCalls (temporalResolvePass example_effect) @ [(JNum 800, JNum 600)]
          \<and> sizeCalls (reflectionsPass s') =
              sizeCalls (reflectionsPass example_effect) @ [(JNum 800, JNum 600)]
          \<and> obj_get (options s') ''DILATION'' = JBool False)"
  by code_simp

text \<open>
  C8, as amended. Assigning \<^verbatim>\<open>undefined\<close> to \<open>width\<close> or \<open>height\<close> raises no error, and the
  key's case of the switch returns before its \<^verbatim>\<open>setSize\<close> call. Zero is not treated specially:
  like any number it is multiplied by the device pixel ratio and passed to \<^verbatim>\<open>setSize\<close> for
  that axis.
\<close>

theorem undefined_dimension_skips_case:
  "setter_switch ''width'' JUndefined s = Inr s
   \<and> setter_switch ''height'' JUndefined s = Inr s
   \<and> (\<exists>s'. setter ''width'' JUndefined s = Inr s')
   \<and> (\<exists>s'. setter ''height'' JUndefined s = Inr s')
   \<and> setter_switch ''width'' (JNum x) s =
       Inr (setSize (JNum (x * dpr s)) (obj_get (options s) ''height'') False s)
   \<and> setter_switch ''height'' (JNum x) s =
       Inr (setSize (obj_get (options s) ''width'') (JNum (x * dpr s)) False s)"
proof -
  have w: "setter_switch ''width'' JUndefined t = Inr t" for t
    by (simp add: setter_switch_def)
  have h: "setter_switch ''height'' JUndefined t = Inr t" for t
    by (simp add: setter_switch_def)
  have "\<exists>s'. setter ''width'' JUndefined s = Inr s'"
    by (simp add: setter_def Let_def w)
  moreover have "\<exists>s'. setter ''height'' JUndefined s = Inr s'"
    by (simp add: setter_def Let_def h)
  moreover have "setter_switch ''width'' (JNum x) s =
       Inr (setSize (JNum (x * dpr s)) (obj_get (options s) ''height'') False s)"
    by (simp add: setter_switch_def js_times_def)
  moreover have "setter_switch ''height'' (JNum x) s =
       Inr (setSize (obj_get (options s) ''width'') (JNum (x * dpr s)) False s)"
    by (simp add: setter_switch_def js_times_def)
  ultimately show ?thesis
    using w h by blast
qed

theorem undefined_dimension_skips_case_witness:
  "setter_switch ''width'' JUndefined example_effect = Inr example_effect
   \<and> setter_switch ''height'' (JNum 0) example_effect =
       Inr (setSize (JNum 800) (JNum 0) False example_effect)"
proof -
  have w: "obj_get (options example_effect) ''width'' = JNum 800"
    by code_simp
  have d: "dpr example_effect = 1"
    by code_simp
  show ?thesis
    using undefined_dimension_skips_case [of example_effect 0]
    unfolding w d by simp
qed

text \<open>
  The claim as written fails: after an assignment of \<^verbatim>\<open>undefined\<close>, or of zero, to \<open>width\<close>
  both sub-passes have received a \<^verbatim>\<open>setSize\<close> call with that width.
\<close>

theorem undefined_dimension_skips_case_counterexample:
  "(case setter ''width'' JUndefined example_effect of
      Inl _ \<Rightarrow> False
    | Inr s' \<Rightarrow>
        sizeCalls (temporalResolvePass s') =
          sizeCalls (temporalResolvePass example_effect) @ [(JUndefined, JNum 600)]
        \<and> sizeCalls (reflectionsPass s') =
            sizeCalls (reflectionsPass example_effect) @ [(JUndefined, JNum 600)])
   \<and> (case setter ''width'' (JNum 0) example_effect of
      Inl _ \<Rightarrow> False
    | Inr s' \<Rightarrow>
        sizeCalls (temporalResolvePass s') =
          sizeCalls (temporalResolvePass example_effect) @ [(JNum 0, JNum 600)]
        \<and> sizeCalls (reflectionsPass s') =
            sizeCalls (reflectionsPass example_effect) @ [(JNum 0, JNum 600)])"
  by code_simp

end
